theory Spec2Isabelle
  imports Main "HOL-Library.Word"
begin

unbundle bit_operations_syntax

section \<open>Machine types\<close>

text \<open>
  \<open>uint8_t\<close>, \<open>unsigned\<close> / \<open>uint32_t\<close> and \<open>std::size_t\<close> of the source, on the usual
  LP64 platform: arithmetic on them wraps around.
\<close>

type_synonym u8 = "8 word"
type_synonym u32 = "32 word"
type_synonym size_t = "64 word"

section \<open>Packed colours (graphics.hh, lines 14 to 26)\<close>

text \<open>
  \<open>encode_rgb\<close>: the three channels are promoted to \<open>int\<close>, shifted (the largest value,
  \<open>255 << 16\<close>, fits an \<open>int\<close>), or-ed with the constant \<open>0xff000000\<close> and returned as
  \<open>uint32_t\<close>.
\<close>

definition encode_rgb :: "u8 \<Rightarrow> u8 \<Rightarrow> u8 \<Rightarrow> u32" where
  "encode_rgb r g b =
     ucast r OR push_bit 8 (ucast g) OR push_bit (2 * 8) (ucast b) OR 0xff000000"

text \<open>
  \<open>decode_rgb\<close>: mask, shift right, and convert each component to \<open>uint8_t\<close> when the
  tuple is built.
\<close>

definition decode_rgb :: "u32 \<Rightarrow> u8 \<times> u8 \<times> u8" where
  "decode_rgb color =
     (ucast (drop_bit (8 * 0) (color AND 0x000000FF)),
      ucast (drop_bit (8 * 1) (color AND 0x0000FF00)),
      ucast (drop_bit (8 * 2) (color AND 0x00FF0000)))"

section \<open>Output streams\<close>

text \<open>
  An output stream: the bytes written so far and the failure flag. Writing to a failed
  stream does nothing. \<open>ofstream opened\<close> is the file stream after its constructor,
  where \<open>opened\<close> tells whether the file could be opened (it is truncated then).
\<close>

record ostream =
  failbit :: bool
  contents :: string

definition ofstream :: "bool \<Rightarrow> ostream" where
  "ofstream opened = \<lparr>failbit = \<not> opened, contents = []\<rparr>"

definition write_string :: "string \<Rightarrow> ostream \<Rightarrow> ostream" where
  "write_string str os = (if failbit os then os else os\<lparr>contents := contents os @ str\<rparr>)"

text \<open>\<open>out.put(r)\<close> for a byte \<open>r\<close>.\<close>

definition put :: "u8 \<Rightarrow> ostream \<Rightarrow> ostream" where
  "put ch os = write_string [char_of (unat ch)] os"

text \<open>\<open>out << n\<close> for an \<open>unsigned\<close> value: decimal digits, no padding.\<close>

fun decimal :: "nat \<Rightarrow> string" where
  "decimal n =
     (if n < 10 then [char_of (48 + n)]
      else decimal (n div 10) @ [char_of (48 + n mod 10)])"

declare decimal.simps [simp del]

definition write_unsigned :: "u32 \<Rightarrow> ostream \<Rightarrow> ostream" where
  "write_unsigned n os = write_string (decimal (unat n)) os"

section \<open>Vector arithmetic (graphics.hh, lines 28 to 102)\<close>

text \<open>
  An operand of the arithmetic is a scalar or a vector. A vector is any tuple-like value
  (the concept \<open>vector\<close> asks that \<open>std::get<0>(vec)\<close> is an expression); its arity is
  the length of the list of its elements. With the usual standard libraries
  \<open>std::array<T, 0>\<close> satisfies the concept as well (the bound of \<open>std::get\<close> is
  checked inside its body), so the list may be empty.
\<close>

datatype 'a operand = Scalar 'a | Vector "'a list"

fun vector :: "'a operand \<Rightarrow> bool" where
  "vector (Vector xs) = True"
| "vector (Scalar s) = False"

definition tuple_size :: "'a list \<Rightarrow> size_t" where
  "tuple_size xs = of_nat (length xs)"

text \<open>
  \<open>vector_min_size<Lhs, Rhs>\<close>: \<open>std::min\<close> over \<open>tuple_size\<close> for a vector and
  \<open>~std::size_t{}\<close> for anything else, stored in a \<open>constexpr unsigned\<close>.
\<close>

fun size_or_max :: "'a operand \<Rightarrow> size_t" where
  "size_or_max (Vector xs) = tuple_size xs"
| "size_or_max (Scalar s) = NOT 0"

definition vector_min_size :: "'a operand \<Rightarrow> 'b operand \<Rightarrow> u32" where
  "vector_min_size lhs rhs = ucast (min (size_or_max lhs) (size_or_max rhs))"

text \<open>
  What can go wrong in \<open>reduce\<close>: the call is rejected by the compiler (the constraint
  fails, or \<open>std::array { }\<close> has no element to deduce its type from), or an element
  operation has undefined behaviour (a division by zero on integers).
\<close>

datatype fault = Ill_formed | Undefined_behaviour

text \<open>\<open>std::array { e... }\<close> from the element results, in order.\<close>

definition std_array :: "'c option list \<Rightarrow> fault + 'c list" where
  "std_array elems =
     (if elems = [] then Inl Ill_formed
      else (case those elems of None \<Rightarrow> Inl Undefined_behaviour | Some r \<Rightarrow> Inr r))"

text \<open>
  \<open>reduce<binary_operator>(lhs, rhs)\<close>: the pack \<open>I...\<close> is \<open>0, ..., N - 1\<close>, and the
  branch is chosen by which operands are vectors.
\<close>

definition reduce :: "('a \<Rightarrow> 'b \<Rightarrow> 'c option) \<Rightarrow> 'a operand \<Rightarrow> 'b operand \<Rightarrow> fault + 'c list" where
  "reduce binary_operator lhs rhs =
     (if \<not> (vector lhs \<or> vector rhs) then Inl Ill_formed
      else
        let N = unat (vector_min_size lhs rhs); I = [0..<N]
        in (case (lhs, rhs) of
              (Vector a, Scalar s) \<Rightarrow> std_array (map (\<lambda>i. binary_operator (a ! i) s) I)
            | (Scalar s, Vector b) \<Rightarrow> std_array (map (\<lambda>i. binary_operator s (b ! i)) I)
            | (Vector a, Vector b) \<Rightarrow> std_array (map (\<lambda>i. binary_operator (a ! i) (b ! i)) I)
            | (Scalar s, Scalar t) \<Rightarrow> Inl Ill_formed))"

text \<open>
  The four function objects, on \<open>unsigned\<close> elements (the element type main.cc uses):
  \<open>std::plus\<close>, \<open>std::minus\<close> and \<open>std::multiplies\<close> wrap around, \<open>std::divides\<close> is
  undefined for a zero divisor.
\<close>

definition std_plus :: "u32 \<Rightarrow> u32 \<Rightarrow> u32 option" where
  "std_plus a b = Some (a + b)"

definition std_minus :: "u32 \<Rightarrow> u32 \<Rightarrow> u32 option" where
  "std_minus a b = Some (a - b)"

definition std_multiplies :: "u32 \<Rightarrow> u32 \<Rightarrow> u32 option" where
  "std_multiplies a b = Some (a * b)"

definition std_divides :: "u32 \<Rightarrow> u32 \<Rightarrow> u32 option" where
  "std_divides a b = (if b = 0 then None else Some (a div b))"

definition operator_plus :: "u32 operand \<Rightarrow> u32 operand \<Rightarrow> fault + u32 list" where
  "operator_plus lhs rhs = reduce std_plus lhs rhs"

definition operator_minus :: "u32 operand \<Rightarrow> u32 operand \<Rightarrow> fault + u32 list" where
  "operator_minus lhs rhs = reduce std_minus lhs rhs"

definition operator_multiplies :: "u32 operand \<Rightarrow> u32 operand \<Rightarrow> fault + u32 list" where
  "operator_multiplies lhs rhs = reduce std_multiplies lhs rhs"

definition operator_divides :: "u32 operand \<Rightarrow> u32 operand \<Rightarrow> fault + u32 list" where
  "operator_divides lhs rhs = reduce std_divides lhs rhs"

text \<open>
  \<open>operator<<\<close> for a vector, on the text written to the stream. The fold expression
  \<^verbatim>\<open>((void)(os << (I > 0 ? ", " : "(") << std::get<I>(vec)), ...)\<close>
  runs over \<open>I = 0, ..., tuple_size - 1\<close> from left to right; \<open>fmt\<close> is the formatting
  of one element.
\<close>

definition output_element :: "('a \<Rightarrow> string) \<Rightarrow> 'a list \<Rightarrow> nat \<Rightarrow> ostream \<Rightarrow> ostream" where
  "output_element fmt vec i os =
     write_string (fmt (vec ! i)) (write_string (if i > 0 then '', '' else ''('') os)"

definition operator_output :: "('a \<Rightarrow> string) \<Rightarrow> ostream \<Rightarrow> 'a list \<Rightarrow> ostream" where
  "operator_output fmt os vec =
     write_string '')'' (fold (output_element fmt vec) [0..<length vec] os)"

section \<open>Canvas (graphics.hh, lines 104 to 154)\<close>

text \<open>
  The backing storage that canvases share is an explicit store, a list of pixel values;
  an address is an index into it. A top-level canvas over a buffer of \<open>n\<close> elements
  has \<open>data = Span 0 n\<close>. A sub-view holds a \<open>std::span\<close> into the same store, built
  from a first and a last pointer; a default-constructed span points nowhere.
\<close>

datatype span = Null_span | Span (span_begin: nat) (span_end: nat)

record canvas =
  data :: span
  width :: u32
  height :: u32
  stride :: u32

text \<open>
  \<open>&data[i]\<close>: unchecked address arithmetic in the source. The model faults (\<open>None\<close>)
  when the span has no storage behind it, and, in \<open>std_fill\<close> and \<open>load\<close> below, when
  memory outside the store would be written or read.
\<close>

fun subscript :: "span \<Rightarrow> nat \<Rightarrow> nat option" where
  "subscript Null_span i = None"
| "subscript (Span b e) i = Some (b + i)"

text \<open>\<open>std::fill(p, q, value)\<close> on addresses \<open>p\<close> (first) and \<open>q\<close> (last) of the store.\<close>

definition std_fill :: "nat \<Rightarrow> nat \<Rightarrow> 'a \<Rightarrow> 'a list \<Rightarrow> 'a list option" where
  "std_fill p q v mem =
     (if q \<le> length mem
      then Some (take p mem @ replicate (q - p) v @ drop q mem)
      else None)"

text \<open>
  The row loop of \<open>fill\<close>,
  \<^verbatim>\<open>for (auto cursor = 0u, h = height; --h < height; cursor += stride) body\<close>,
  with the loop body as a parameter: \<open>h\<close> is decremented (wrapping) before the test.
\<close>

function fill_loop :: "(u32 \<Rightarrow> 's \<Rightarrow> 's) \<Rightarrow> u32 \<Rightarrow> u32 \<Rightarrow> u32 \<Rightarrow> u32 \<Rightarrow> 's \<Rightarrow> 's" where
  "fill_loop body hgt strd cursor h s =
     (let h' = h - 1 in
      if h' < hgt then fill_loop body hgt strd (cursor + strd) h' (body cursor s) else s)"
  by pat_completeness auto
termination
proof (relation "measure (\<lambda>(body, hgt, strd, cursor, h, s). unat h)")
  show "wf (measure (\<lambda>(body, hgt, strd, cursor, h, s). unat h))"
    by simp
next
  fix body :: "u32 \<Rightarrow> 's \<Rightarrow> 's" and hgt strd cursor h :: u32 and s :: 's and h' :: u32
  assume h': "h' = h - 1" and lt: "h' < hgt"
  have "h \<noteq> 0"
  proof
    assume "h = 0"
    with h' have "h' = - 1" by simp
    with lt show False by simp
  qed
  then have "unat (h - 1) < unat h"
    by (simp add: unat_minus_one unat_gt_0)
  with h' show "((body, hgt, strd, cursor + strd, h', body cursor s),
                 (body, hgt, strd, cursor, h, s))
        \<in> measure (\<lambda>(body, hgt, strd, cursor, h, s). unat h)"
    by simp
qed

declare fill_loop.simps [simp del]

text \<open>
  The loop body of \<open>fill\<close>:
  \<^verbatim>\<open>std::fill(&data[cursor], &data[cursor] + width, new_value)\<close>.
  A fault stays a fault.
\<close>

definition fill_row :: "canvas \<Rightarrow> 'a \<Rightarrow> u32 \<Rightarrow> 'a list option \<Rightarrow> 'a list option" where
  "fill_row c new_value cursor s =
     (case s of
        None \<Rightarrow> None
      | Some mem \<Rightarrow>
          (case subscript (data c) (unat cursor) of
             None \<Rightarrow> None
           | Some p \<Rightarrow> std_fill p (p + unat (width c)) new_value mem))"

definition fill :: "canvas \<Rightarrow> 'a \<Rightarrow> 'a list \<Rightarrow> 'a list option" where
  "fill c new_value mem =
     fill_loop (fill_row c new_value) (height c) (stride c) 0 (height c) (Some mem)"

text \<open>
  \<open>return {}\<close> for \<open>canvas<std::span<value_type>>\<close>: an empty span, \<open>width\<close> and
  \<open>height\<close> value-initialised to zero, \<open>stride\<close> from its default member initialiser
  \<open>stride = width\<close>.
\<close>

definition default_canvas :: canvas where
  "default_canvas = \<lparr>data = Null_span, width = 0, height = 0, stride = 0\<rparr>"

text \<open>
  \<open>subcanvas_view\<close>, for points whose coordinates are \<open>unsigned\<close> (as in main.cc). The
  new span runs from \<open>&data[y1 * stride + x1]\<close> to \<open>&data[0] + height * stride\<close>; the
  index and the product are computed in \<open>unsigned\<close>.
\<close>

definition subcanvas_view :: "canvas \<Rightarrow> 'p \<Rightarrow> 'p \<Rightarrow> ('p \<Rightarrow> u32 \<times> u32) \<Rightarrow> canvas option" where
  "subcanvas_view c p1 p2 getxy =
     (case (getxy p1, getxy p2) of
        ((x1, y1), (x2, y2)) \<Rightarrow>
          if x1 = x2 \<and> y1 = y2 then Some default_canvas
          else
            let (x1, x2) = (if x1 > x2 then (x2, x1) else (x1, x2));
                (y1, y2) = (if y1 > y2 then (y2, y1) else (y1, y2))
            in (case (subscript (data c) (unat (y1 * stride c + x1)), subscript (data c) 0) of
                  (Some p, Some q) \<Rightarrow>
                    Some \<lparr>data = Span p (q + unat (height c * stride c)),
                          width = x2 - x1 + 1,
                          height = y2 - y1 + 1,
                          stride = stride c\<rparr>
                | _ \<Rightarrow> None))"

text \<open>The default coordinate extractor, \<open>identity\<close>.\<close>

definition identity :: "'a \<Rightarrow> 'a" where
  "identity v = v"

text \<open>
  The address of pixel \<open>(x, y)\<close> of a canvas, as \<open>save_as_ppm\<close> reads it:
  \<open>data[y * stride + x]\<close>, the index computed in \<open>unsigned\<close>.
\<close>

definition pixel :: "canvas \<Rightarrow> u32 \<Rightarrow> u32 \<Rightarrow> nat option" where
  "pixel c x y = subscript (data c) (unat (y * stride c + x))"

subsection \<open>Serialisation\<close>

text \<open>Reading \<open>data[i]\<close>: a fault when the address is outside the store.\<close>

definition load :: "span \<Rightarrow> nat \<Rightarrow> 'a list \<Rightarrow> 'a option" where
  "load d i mem =
     (case subscript d i of
        None \<Rightarrow> None
      | Some p \<Rightarrow> if p < length mem then Some (mem ! p) else None)"

text \<open>
  The counting loops of \<open>save_as_ppm\<close>,
  \<^verbatim>\<open>for (auto i = 0u; i < n; ++i) body\<close>, with the body as a parameter.
\<close>

function for_loop :: "(u32 \<Rightarrow> 's \<Rightarrow> 's) \<Rightarrow> u32 \<Rightarrow> u32 \<Rightarrow> 's \<Rightarrow> 's" where
  "for_loop body n i s = (if i < n then for_loop body n (i + 1) (body i s) else s)"
  by pat_completeness auto
termination
proof (relation "measure (\<lambda>(body, n, i, s). unat n - unat i)")
  show "wf (measure (\<lambda>(body, n, i, s). unat n - unat i))"
    by simp
next
  fix body :: "u32 \<Rightarrow> 's \<Rightarrow> 's" and n i :: u32 and s :: 's
  assume lt: "i < n"
  then have less: "unat i < unat n"
    by (simp add: word_less_nat_alt)
  moreover have "unat n < 2 ^ 32"
    using unsigned_less [of n, where 'a = nat] by simp
  ultimately have "unat i + 1 < 2 ^ 32"
    by simp
  then have "unat (i + 1) = unat i + 1"
    by (simp add: unat_word_ariths)
  with less show "((body, n, i + 1, body i s), (body, n, i, s))
        \<in> measure (\<lambda>(body, n, i, s). unat n - unat i)"
    by simp
qed

declare for_loop.simps [simp del]

text \<open>
  The body of the inner loop:
  \<^verbatim>\<open>auto [r, g, b] = rgb(data[y * stride + x]); out.put(r).put(g).put(b);\<close>
\<close>

definition save_pixel ::
  "canvas \<Rightarrow> ('a \<Rightarrow> u8 \<times> u8 \<times> u8) \<Rightarrow> 'a list \<Rightarrow> u32 \<Rightarrow> u32 \<Rightarrow> ostream option \<Rightarrow> ostream option"
where
  "save_pixel c rgb mem y x s =
     (case s of
        None \<Rightarrow> None
      | Some out \<Rightarrow>
          (case load (data c) (unat (y * stride c + x)) mem of
             None \<Rightarrow> None
           | Some px \<Rightarrow>
               (case rgb px of (r, g, b) \<Rightarrow> Some (put b (put g (put r out))))))"

text \<open>
  \<open>save_as_ppm\<close>: the header \<^verbatim>\<open>out << "P6\n" << width << ' ' << height << "\n255\n"\<close>,
  then the pixels row by row. The result is the stream when the function returns
  (the file's contents, if the file was opened), or \<open>None\<close> after a read outside the
  store.
\<close>

definition save_as_ppm ::
  "canvas \<Rightarrow> bool \<Rightarrow> ('a \<Rightarrow> u8 \<times> u8 \<times> u8) \<Rightarrow> 'a list \<Rightarrow> ostream option"
where
  "save_as_ppm c opened rgb mem =
     (let out = ofstream opened;
          out = write_string ''P6\<newline>'' out;
          out = write_unsigned (width c) out;
          out = write_string '' '' out;
          out = write_unsigned (height c) out;
          out = write_string ''\<newline>255\<newline>'' out
      in for_loop (\<lambda>y. for_loop (save_pixel c rgb mem y) (width c) 0) (height c) 0 (Some out))"

section \<open>Notions used to state the properties\<close>


text \<open>
  The textual form the specification gives for the elements of a vector: separated by
  a comma and a space.
\<close>

fun comma_separated :: "string list \<Rightarrow> string" where
  "comma_separated [] = []"
| "comma_separated [x] = x"
| "comma_separated (x # y # ys) = x @ '', '' @ comma_separated (y # ys)"

section \<open>Colour helpers: proofs\<close>

lemma byte_masks:
  "(0x000000FF :: u32) = mask 8"
  "(0x0000FF00 :: u32) = push_bit 8 (mask 8)"
  "(0x00FF0000 :: u32) = push_bit 16 (mask 8)"
  "(0xff000000 :: u32) = push_bit 24 (mask 8)"
  by (simp_all add: mask_eq_exp_minus_1)

text \<open>
  Claim C8. For all bytes \<open>r\<close>, \<open>g\<close>, \<open>b\<close>, decoding the encoded colour gives back
  \<open>(r, g, b)\<close>; the encoding is \<open>R | (G<<8) | (B<<16) | (0xFF<<24)\<close>, and decoding reads
  the three low bytes only, so the top byte has no influence on it.
\<close>

theorem decode_encode_rgb:
  "decode_rgb (encode_rgb r g b) = (r, g, b)
   \<and> encode_rgb r g b
       = ucast r OR push_bit 8 (ucast g) OR push_bit 16 (ucast b) OR push_bit 24 0xFF
   \<and> decode_rgb color = (ucast color, ucast (drop_bit 8 color), ucast (drop_bit 16 color))
   \<and> decode_rgb (color AND 0x00FFFFFF) = decode_rgb color"
proof -
  have rt: "decode_rgb (encode_rgb r g b) = (r, g, b)"
    unfolding decode_rgb_def encode_rgb_def byte_masks
    apply (simp add: bit_eq_iff del: push_bit_numeral)
    apply (auto simp add: bit_simps simp del: push_bit_numeral dest: bit_imp_le_length)
    done
  have enc: "encode_rgb r g b
       = ucast r OR push_bit 8 (ucast g) OR push_bit 16 (ucast b) OR push_bit 24 0xFF"
    by (simp add: encode_rgb_def)
  have low: "decode_rgb c = (ucast c, ucast (drop_bit 8 c), ucast (drop_bit 16 c))" for c
    unfolding decode_rgb_def byte_masks
    apply (simp add: bit_eq_iff del: push_bit_numeral)
    apply (auto simp add: bit_simps simp del: push_bit_numeral dest: bit_imp_le_length)
    done
  have m: "(0x00FFFFFF :: u32) = mask 24"
    by (simp add: mask_eq_exp_minus_1)
  have top: "decode_rgb (color AND 0x00FFFFFF) = decode_rgb color"
    unfolding low m
    apply (simp add: bit_eq_iff)
    apply (auto simp add: bit_simps dest: bit_imp_le_length)
    done
  from rt enc low top show ?thesis by blast
qed

section \<open>Serialisation: proofs\<close>

lemma encode_rgb_red_green:
  "encode_rgb 255 0 0 = 0xFF0000FF" "encode_rgb 0 255 0 = 0xFF00FF00"
  by (simp_all add: encode_rgb_def)

lemma decode_rgb_red_green:
  "decode_rgb 0xFF0000FF = (255, 0, 0)" "decode_rgb 0xFF00FF00 = (0, 255, 0)"
  by (simp_all add: decode_rgb_def)

lemma char_of_bytes:
  "char_of (50::nat) = CHR ''2''" "char_of (49::nat) = CHR ''1''"
  "char_of (255::nat) = CHR 0xFF" "char_of (0::nat) = CHR 0x00"
  by code_simp+

text \<open>
  Claim C7. Saving the 2 by 1 canvas whose pixels are \<open>encode_rgb 255 0 0\<close> and
  \<open>encode_rgb 0 255 0\<close> with \<open>decode_rgb\<close> as the pixel mapping, to a file that could
  be opened, writes the header \<open>P6\<newline>2 1\<newline>255\<newline>\<close> and then the six bytes
  FF 00 00 00 FF 00, and nothing else. (With one row the stride plays no part.)
\<close>

theorem save_as_ppm_two_pixels:
  "save_as_ppm \<lparr>data = Span 0 2, width = 2, height = 1, stride = S\<rparr> True decode_rgb
         [encode_rgb 255 0 0, encode_rgb 0 255 0]
   = Some \<lparr>failbit = False,
            contents = ''P6\<newline>2 1\<newline>255\<newline>''
                       @ [CHR 0xFF, CHR 0x00, CHR 0x00, CHR 0x00, CHR 0xFF, CHR 0x00]\<rparr>"
  apply (simp add: save_as_ppm_def Let_def ofstream_def write_string_def write_unsigned_def
      decimal.simps encode_rgb_red_green char_of_bytes)
  apply (simp add: for_loop.simps [of _ _ 0] for_loop.simps [of _ _ 1] for_loop.simps [of _ _ 2]
      save_pixel_def load_def decode_rgb_red_green put_def write_string_def char_of_bytes)
  done

section \<open>Vector arithmetic: proofs\<close>

lemma those_eq_Some: "those xs = Some r \<longleftrightarrow> xs = map Some r"
proof (induction xs arbitrary: r)
  case Nil
  then show ?case by auto
next
  case (Cons x xs)
  then show ?case
    by (cases x; cases r) (auto split: option.splits)
qed

lemma std_array_Inr:
  "std_array (map g [0..<N]) = Inr r \<longleftrightarrow> 0 < N \<and> length r = N \<and> (\<forall>i<N. g i = Some (r ! i))"
proof -
  have "map g [0..<N] = map Some r \<longleftrightarrow> length r = N \<and> (\<forall>i<N. g i = Some (r ! i))"
    by (auto simp add: list_eq_iff_nth_eq)
  moreover have "std_array xs = Inr r \<longleftrightarrow> xs \<noteq> [] \<and> xs = map Some r" for xs :: "'a option list"
    by (cases "those xs") (auto simp add: std_array_def those_eq_Some [symmetric])
  ultimately show ?thesis
    by auto
qed

lemma std_array_defined:
  assumes "0 < N" "\<forall>i<N. g i \<noteq> None"
  shows "\<exists>r. std_array (map g [0..<N]) = Inr r \<and> length r = N \<and> (\<forall>i<N. g i = Some (r ! i))"
proof -
  let ?r = "map (\<lambda>i. the (g i)) [0..<N]"
  from assms have "0 < N \<and> length ?r = N \<and> (\<forall>i<N. g i = Some (?r ! i))"
    by auto
  then have "std_array (map g [0..<N]) = Inr ?r"
    by (rule std_array_Inr [THEN iffD2])
  with assms show ?thesis by auto
qed

lemma unat_tuple_size: "length xs < 2 ^ 32 \<Longrightarrow> unat (tuple_size xs) = length xs"
  by (simp add: tuple_size_def unat_of_nat)

lemma vector_min_size_vv:
  assumes "length a < 2 ^ 32" "length b < 2 ^ 32"
  shows "unat (vector_min_size (Vector a) (Vector b)) = min (length a) (length b)"
proof -
  have "unat (min (tuple_size a) (tuple_size b)) = min (length a) (length b)"
    using assms by (simp add: min_def word_le_nat_alt unat_tuple_size)
  with assms show ?thesis
    by (simp add: vector_min_size_def unsigned_ucast_eq take_bit_nat_eq_self)
qed

lemma vector_min_size_vs:
  assumes "length a < 2 ^ 32"
  shows "unat (vector_min_size (Vector a) (Scalar s)) = length a"
proof -
  have "min (tuple_size a) (NOT 0) = tuple_size a"
    by (simp add: min_def)
  with assms show ?thesis
    by (simp add: vector_min_size_def unsigned_ucast_eq take_bit_nat_eq_self unat_tuple_size)
qed

lemma vector_min_size_sv:
  assumes "length b < 2 ^ 32"
  shows "unat (vector_min_size (Scalar t) (Vector b)) = length b"
proof -
  have "min (NOT 0) (tuple_size b) = tuple_size b"
    by (simp add: min_def word_order.extremum_unique)
  with assms show ?thesis
    by (simp add: vector_min_size_def unsigned_ucast_eq take_bit_nat_eq_self unat_tuple_size)
qed

lemma reduce_vv:
  "reduce f (Vector a) (Vector b)
     = std_array (map (\<lambda>i. f (a ! i) (b ! i)) [0..<unat (vector_min_size (Vector a) (Vector b))])"
  by (simp add: reduce_def)

lemma reduce_vs:
  "reduce f (Vector a) (Scalar s)
     = std_array (map (\<lambda>i. f (a ! i) s) [0..<unat (vector_min_size (Vector a) (Scalar s))])"
  by (simp add: reduce_def)

lemma reduce_sv:
  "reduce f (Scalar t) (Vector b)
     = std_array (map (\<lambda>i. f t (b ! i)) [0..<unat (vector_min_size (Scalar t) (Vector b))])"
  by (simp add: reduce_def)

lemma map_upt_take:
  "map (\<lambda>i. g i (take n xs ! i)) [0..<n] = map (\<lambda>i. g i (xs ! i)) [0..<n]"
  by (simp add: list_eq_iff_nth_eq)

text \<open>
  Claim C4. For a binary operator \<open>f\<close> (any of \<open>std_plus\<close>, \<open>std_minus\<close>,
  \<open>std_multiplies\<close>, \<open>std_divides\<close>, or any other), vectors of arity \<open>N\<close> and scalars,
  where every element operation is defined: \<open>reduce\<close> returns an array \<open>r\<close> of \<open>N\<close>
  elements with \<open>r[i] = f(a[i], b[i])\<close> for two vectors, \<open>r[i] = f(a[i], s)\<close> for a
  vector and a scalar, and \<open>r[i] = f(t, b[i])\<close> for a scalar and a vector, at every
  \<open>i < N\<close>. The arity is at least one (\<open>std::array { }\<close> of no element does not
  compile) and fits \<open>unsigned\<close>.
\<close>

theorem reduce_elementwise:
  assumes "0 < N" "N < 2 ^ 32"
  shows "(length a = N \<and> length b = N \<and> (\<forall>i<N. f (a ! i) (b ! i) \<noteq> None) \<longrightarrow>
            (\<exists>r. reduce f (Vector a) (Vector b) = Inr r \<and> length r = N
                 \<and> (\<forall>i<N. f (a ! i) (b ! i) = Some (r ! i))))
       \<and> (length a = N \<and> (\<forall>i<N. f (a ! i) s \<noteq> None) \<longrightarrow>
            (\<exists>r. reduce f (Vector a) (Scalar s) = Inr r \<and> length r = N
                 \<and> (\<forall>i<N. f (a ! i) s = Some (r ! i))))
       \<and> (length b = N \<and> (\<forall>i<N. f t (b ! i) \<noteq> None) \<longrightarrow>
            (\<exists>r. reduce f (Scalar t) (Vector b) = Inr r \<and> length r = N
                 \<and> (\<forall>i<N. f t (b ! i) = Some (r ! i))))"
proof (intro conjI impI)
  assume h: "length a = N \<and> length b = N \<and> (\<forall>i<N. f (a ! i) (b ! i) \<noteq> None)"
  with assms have "unat (vector_min_size (Vector a) (Vector b)) = N"
    by (simp add: vector_min_size_vv)
  with std_array_defined [of N "\<lambda>i. f (a ! i) (b ! i)"] assms(1) h
  show "\<exists>r. reduce f (Vector a) (Vector b) = Inr r \<and> length r = N
          \<and> (\<forall>i<N. f (a ! i) (b ! i) = Some (r ! i))"
    by (simp add: reduce_vv)
next
  assume h: "length a = N \<and> (\<forall>i<N. f (a ! i) s \<noteq> None)"
  with assms have "unat (vector_min_size (Vector a) (Scalar s)) = N"
    by (simp add: vector_min_size_vs)
  with std_array_defined [of N "\<lambda>i. f (a ! i) s"] assms(1) h
  show "\<exists>r. reduce f (Vector a) (Scalar s) = Inr r \<and> length r = N
          \<and> (\<forall>i<N. f (a ! i) s = Some (r ! i))"
    by (simp add: reduce_vs)
next
  assume h: "length b = N \<and> (\<forall>i<N. f t (b ! i) \<noteq> None)"
  with assms have "unat (vector_min_size (Scalar t) (Vector b)) = N"
    by (simp add: vector_min_size_sv)
  with std_array_defined [of N "\<lambda>i. f t (b ! i)"] assms(1) h
  show "\<exists>r. reduce f (Scalar t) (Vector b) = Inr r \<and> length r = N
          \<and> (\<forall>i<N. f t (b ! i) = Some (r ! i))"
    by (simp add: reduce_sv)
qed

theorem reduce_elementwise_witness:
  "reduce std_divides (Vector [6, 8]) (Vector [3, 2]) = Inr [2, 4]
   \<and> reduce std_divides (Vector [6, 8]) (Scalar 2) = Inr [3, 4]
   \<and> reduce std_divides (Scalar 24) (Vector [3, 2]) = Inr [8, 12]"
proof -
  have two: "r = [r ! 0, r ! 1]" if "length r = 2" for r :: "u32 list"
    using that by (auto simp add: length_Suc_conv numeral_2_eq_2)
  have less2: "i = 0 \<or> i = 1" if "i < 2" for i :: nat
    using that by linarith
  note t = reduce_elementwise [of 2 "[6, 8]" "[3, 2]" std_divides 2 24]
  have d1: "\<forall>i<2. std_divides ([6, 8] ! i) ([3, 2] ! i) \<noteq> None"
    by (auto simp add: std_divides_def dest!: less2)
  have d2: "\<forall>i<2. std_divides ([6, 8] ! i) 2 \<noteq> None"
    by (auto simp add: std_divides_def dest!: less2)
  have d3: "\<forall>i<2. std_divides 24 ([3, 2] ! i) \<noteq> None"
    by (auto simp add: std_divides_def dest!: less2)
  from t d1 obtain r1 where r1: "reduce std_divides (Vector [6, 8]) (Vector [3, 2]) = Inr r1"
    "length r1 = 2" "\<forall>i<2. std_divides ([6, 8] ! i) ([3, 2] ! i) = Some (r1 ! i)"
    by auto
  from r1(3) [rule_format, of 0] r1(3) [rule_format, of 1] two [OF r1(2)]
  have "r1 = [2, 4]" by (simp add: std_divides_def)
  from t d2 obtain r2 where r2: "reduce std_divides (Vector [6, 8]) (Scalar 2) = Inr r2"
    "length r2 = 2" "\<forall>i<2. std_divides ([6, 8] ! i) 2 = Some (r2 ! i)"
    by auto
  from r2(3) [rule_format, of 0] r2(3) [rule_format, of 1] two [OF r2(2)]
  have "r2 = [3, 4]" by (simp add: std_divides_def)
  from t d3 obtain r3 where r3: "reduce std_divides (Scalar 24) (Vector [3, 2]) = Inr r3"
    "length r3 = 2" "\<forall>i<2. std_divides 24 ([3, 2] ! i) = Some (r3 ! i)"
    by auto
  from r3(3) [rule_format, of 0] r3(3) [rule_format, of 1] two [OF r3(2)]
  have "r3 = [8, 12]" by (simp add: std_divides_def)
  from r1(1) r2(1) r3(1) \<open>r1 = [2, 4]\<close> \<open>r2 = [3, 4]\<close> \<open>r3 = [8, 12]\<close> show ?thesis by simp
qed

lemma unat_min_word: "unat (min x y) = min (unat x) (unat y)" for x y :: "'a::len word"
  by (simp add: min_def word_le_nat_alt)

lemma vector_min_size_vv_mod:
  "unat (vector_min_size (Vector a) (Vector b))
     = min (length a mod 2 ^ 64) (length b mod 2 ^ 64) mod 2 ^ 32"
  by (simp add: vector_min_size_def unsigned_ucast_eq unat_min_word take_bit_eq_mod
      tuple_size_def unat_of_nat)

lemma mod_64_32: "n mod 18446744073709551616 mod 4294967296 = n mod (4294967296 :: nat)"
  by (rule mod_mod_cancel) simp

lemma vector_min_size_vs_mod:
  "unat (vector_min_size (Vector a) (Scalar s)) = length a mod 2 ^ 32"
proof -
  have "min (tuple_size a) (NOT 0) = tuple_size a"
    by (simp add: min_def)
  then show ?thesis
    by (simp add: vector_min_size_def unsigned_ucast_eq take_bit_eq_mod tuple_size_def
        unat_of_nat mod_64_32)
qed

lemma vector_min_size_sv_mod:
  "unat (vector_min_size (Scalar t) (Vector b)) = length b mod 2 ^ 32"
proof -
  have "min (NOT 0) (tuple_size b) = tuple_size b"
    by (simp add: min_def word_order.extremum_unique)
  then show ?thesis
    by (simp add: vector_min_size_def unsigned_ucast_eq take_bit_eq_mod tuple_size_def
        unat_of_nat mod_64_32)
qed

lemma reduce_vv_Inr:
  assumes "length a < 2 ^ 32" "length b < 2 ^ 32"
  shows "reduce f (Vector a) (Vector b) = Inr r \<longleftrightarrow>
           0 < min (length a) (length b) \<and> length r = min (length a) (length b)
           \<and> (\<forall>i<min (length a) (length b). f (a ! i) (b ! i) = Some (r ! i))"
  unfolding reduce_vv vector_min_size_vv [OF assms] by (rule std_array_Inr)

lemma reduce_vs_Inr:
  assumes "length a < 2 ^ 32"
  shows "reduce f (Vector a) (Scalar s) = Inr r \<longleftrightarrow>
           0 < length a \<and> length r = length a \<and> (\<forall>i<length a. f (a ! i) s = Some (r ! i))"
  unfolding reduce_vs vector_min_size_vs [OF assms] by (rule std_array_Inr)

lemma reduce_sv_Inr:
  assumes "length b < 2 ^ 32"
  shows "reduce f (Scalar t) (Vector b) = Inr r \<longleftrightarrow>
           0 < length b \<and> length r = length b \<and> (\<forall>i<length b. f t (b ! i) = Some (r ! i))"
  unfolding reduce_sv vector_min_size_sv [OF assms] by (rule std_array_Inr)

lemma reduce_vv_defined:
  assumes "length a < 2 ^ 32" "length b < 2 ^ 32"
  shows "0 < min (length a) (length b)
           \<and> (\<forall>i<min (length a) (length b). f (a ! i) (b ! i) \<noteq> None) \<longrightarrow>
         (\<exists>r. reduce f (Vector a) (Vector b) = Inr r \<and> length r = min (length a) (length b))"
proof
  assume "0 < min (length a) (length b)
           \<and> (\<forall>i<min (length a) (length b). f (a ! i) (b ! i) \<noteq> None)"
  then have "0 < min (length a) (length b)"
    and "\<forall>i<min (length a) (length b). f (a ! i) (b ! i) \<noteq> None"
    by simp_all
  from std_array_defined [OF this]
  show "\<exists>r. reduce f (Vector a) (Vector b) = Inr r \<and> length r = min (length a) (length b)"
    unfolding reduce_vv vector_min_size_vv [OF assms] by blast
qed

lemma reduce_vs_defined:
  assumes "length a < 2 ^ 32"
  shows "0 < length a \<and> (\<forall>i<length a. f (a ! i) s \<noteq> None) \<longrightarrow>
         (\<exists>r. reduce f (Vector a) (Scalar s) = Inr r \<and> length r = length a)"
proof
  assume "0 < length a \<and> (\<forall>i<length a. f (a ! i) s \<noteq> None)"
  then have "0 < length a" and "\<forall>i<length a. f (a ! i) s \<noteq> None"
    by simp_all
  from std_array_defined [OF this]
  show "\<exists>r. reduce f (Vector a) (Scalar s) = Inr r \<and> length r = length a"
    unfolding reduce_vs vector_min_size_vs [OF assms] by blast
qed

lemma reduce_sv_defined:
  assumes "length b < 2 ^ 32"
  shows "0 < length b \<and> (\<forall>i<length b. f t (b ! i) \<noteq> None) \<longrightarrow>
         (\<exists>r. reduce f (Scalar t) (Vector b) = Inr r \<and> length r = length b)"
proof
  assume "0 < length b \<and> (\<forall>i<length b. f t (b ! i) \<noteq> None)"
  then have "0 < length b" and "\<forall>i<length b. f t (b ! i) \<noteq> None"
    by simp_all
  from std_array_defined [OF this]
  show "\<exists>r. reduce f (Scalar t) (Vector b) = Inr r \<and> length r = length b"
    unfolding reduce_sv vector_min_size_sv [OF assms] by blast
qed

lemma reduce_prefix_right:
  assumes "length a < 2 ^ 32" "length b < 2 ^ 32"
  shows "length a < length b \<longrightarrow>
         reduce f (Vector a) (Vector b) = reduce f (Vector a) (Vector (take (length a) b))"
proof
  assume lt: "length a < length b"
  with assms have "unat (vector_min_size (Vector a) (Vector (take (length a) b))) = length a"
    by (simp add: vector_min_size_vv)
  with lt vector_min_size_vv [OF assms]
  show "reduce f (Vector a) (Vector b) = reduce f (Vector a) (Vector (take (length a) b))"
    by (simp add: reduce_vv map_upt_take [of "\<lambda>i. f (a ! i)"])
qed

lemma reduce_prefix_left:
  assumes "length a < 2 ^ 32" "length b < 2 ^ 32"
  shows "length b < length a \<longrightarrow>
         reduce f (Vector a) (Vector b) = reduce f (Vector (take (length b) a)) (Vector b)"
proof
  assume lt: "length b < length a"
  with assms have "unat (vector_min_size (Vector (take (length b) a)) (Vector b)) = length b"
    by (simp add: vector_min_size_vv)
  with lt vector_min_size_vv [OF assms]
  show "reduce f (Vector a) (Vector b) = reduce f (Vector (take (length b) a)) (Vector b)"
    by (simp add: reduce_vv map_upt_take [of "\<lambda>i y. f y (b ! i)"])
qed

text \<open>
  Claim C5, as amended. The number \<open>N\<close> of elements \<open>reduce\<close> computes is held in an
  \<open>unsigned\<close>: it is the smaller of the arities of the vector operands (a scalar
  operand counts as \<open>~std::size_t{}\<close> and never bounds it) taken modulo \<open>2 ^ 32\<close>. So for
  vector operands of arity below \<open>2 ^ 32\<close>: \<open>N\<close> is the minimum of the two arities for
  two vectors and the vector's arity next to a scalar; \<open>reduce\<close> returns an array exactly
  when \<open>N\<close> is at least one and the element operations at the positions below \<open>N\<close> are
  defined, and the array then has \<open>N\<close> elements; and when the arities differ, the result
  is the one computed from the shorter vector and the prefix of the longer one of the
  same length.
\<close>

theorem reduce_arity:
  "unat (vector_min_size (Vector a) (Vector b))
     = min (length a mod 2 ^ 64) (length b mod 2 ^ 64) mod 2 ^ 32
   \<and> unat (vector_min_size (Vector a) (Scalar s)) = length a mod 2 ^ 32
   \<and> unat (vector_min_size (Scalar t) (Vector b)) = length b mod 2 ^ 32
   \<and> (length a < 2 ^ 32 \<and> length b < 2 ^ 32 \<longrightarrow>
        unat (vector_min_size (Vector a) (Vector b)) = min (length a) (length b)
        \<and> unat (vector_min_size (Vector a) (Scalar s)) = length a
        \<and> unat (vector_min_size (Scalar t) (Vector b)) = length b
        \<and> (\<forall>r. reduce f (Vector a) (Vector b) = Inr r \<longleftrightarrow>
               0 < min (length a) (length b) \<and> length r = min (length a) (length b)
               \<and> (\<forall>i<min (length a) (length b). f (a ! i) (b ! i) = Some (r ! i)))
        \<and> (\<forall>r. reduce f (Vector a) (Scalar s) = Inr r \<longleftrightarrow>
               0 < length a \<and> length r = length a \<and> (\<forall>i<length a. f (a ! i) s = Some (r ! i)))
        \<and> (\<forall>r. reduce f (Scalar t) (Vector b) = Inr r \<longleftrightarrow>
               0 < length b \<and> length r = length b \<and> (\<forall>i<length b. f t (b ! i) = Some (r ! i)))
        \<and> (0 < min (length a) (length b)
              \<and> (\<forall>i<min (length a) (length b). f (a ! i) (b ! i) \<noteq> None) \<longrightarrow>
            (\<exists>r. reduce f (Vector a) (Vector b) = Inr r \<and> length r = min (length a) (length b)))
        \<and> (0 < length a \<and> (\<forall>i<length a. f (a ! i) s \<noteq> None) \<longrightarrow>
            (\<exists>r. reduce f (Vector a) (Scalar s) = Inr r \<and> length r = length a))
        \<and> (0 < length b \<and> (\<forall>i<length b. f t (b ! i) \<noteq> None) \<longrightarrow>
            (\<exists>r. reduce f (Scalar t) (Vector b) = Inr r \<and> length r = length b))
        \<and> (length a < length b \<longrightarrow>
            reduce f (Vector a) (Vector b) = reduce f (Vector a) (Vector (take (length a) b)))
        \<and> (length b < length a \<longrightarrow>
            reduce f (Vector a) (Vector b) = reduce f (Vector (take (length b) a)) (Vector b)))"
  (is "?U1 \<and> ?U2 \<and> ?U3 \<and> (?H \<longrightarrow> ?C)")
proof -
  have u1: ?U1 by (rule vector_min_size_vv_mod)
  have u2: ?U2 by (rule vector_min_size_vs_mod)
  have u3: ?U3 by (rule vector_min_size_sv_mod)
  have c: ?C if la: "length a < 2 ^ 32" and lb: "length b < 2 ^ 32"
    by (intro conjI allI)
      (rule vector_min_size_vv [OF la lb] vector_min_size_vs [OF la] vector_min_size_sv [OF lb]
        reduce_vv_Inr [OF la lb] reduce_vs_Inr [OF la] reduce_sv_Inr [OF lb]
        reduce_vv_defined [OF la lb] reduce_vs_defined [OF la] reduce_sv_defined [OF lb]
        reduce_prefix_right [OF la lb] reduce_prefix_left [OF la lb])+
  have hc: "?H \<longrightarrow> ?C"
  proof
    assume ?H
    then have "length a < 2 ^ 32" and "length b < 2 ^ 32" by simp_all
    then show ?C by (rule c)
  qed
  from u1 u2 u3 hc show ?thesis
    by (intro conjI)
qed

theorem reduce_arity_witness:
  "unat (vector_min_size (Vector [1, 2 :: u32]) (Vector [10, 20, 30 :: u32])) = 2
   \<and> unat (vector_min_size (Vector [1, 2 :: u32]) (Scalar (5 :: u32))) = 2
   \<and> unat (vector_min_size (Scalar (5 :: u32)) (Vector [10, 20, 30 :: u32])) = 3
   \<and> reduce std_plus (Vector [1, 2]) (Vector [10, 20, 30])
       = reduce std_plus (Vector [1, 2]) (Vector [10, 20])
   \<and> (\<exists>r. reduce std_plus (Vector [1, 2]) (Vector [10, 20, 30]) = Inr r \<and> length r = 2)
   \<and> (\<exists>r. reduce std_plus (Vector [1, 2]) (Scalar 5) = Inr r \<and> length r = 2)
   \<and> (\<exists>r. reduce std_plus (Scalar 5) (Vector [10, 20, 30]) = Inr r \<and> length r = 3)"
proof -
  let ?a = "[1, 2 :: u32]" and ?b = "[10, 20, 30 :: u32]"
  have h: "length ?a < 2 ^ 32 \<and> length ?b < 2 ^ 32"
    by simp
  note t = reduce_arity [of ?a ?b 5 5 std_plus,
      THEN conjunct2, THEN conjunct2, THEN conjunct2, THEN mp, OF h]
  note vv = t [THEN conjunct1]
  note t1 = t [THEN conjunct2]
  note vs = t1 [THEN conjunct1]
  note t2 = t1 [THEN conjunct2]
  note sv = t2 [THEN conjunct1]
  note t6 = t2 [THEN conjunct2, THEN conjunct2, THEN conjunct2, THEN conjunct2]
  note e1 = t6 [THEN conjunct1]
  note t7 = t6 [THEN conjunct2]
  note e2 = t7 [THEN conjunct1]
  note t8 = t7 [THEN conjunct2]
  note e3 = t8 [THEN conjunct1]
  note p1 = t8 [THEN conjunct2, THEN conjunct1]
  have d1: "0 < min (length ?a) (length ?b)
      \<and> (\<forall>i<min (length ?a) (length ?b). std_plus (?a ! i) (?b ! i) \<noteq> None)"
    by (simp add: std_plus_def)
  have d2: "0 < length ?a \<and> (\<forall>i<length ?a. std_plus (?a ! i) 5 \<noteq> None)"
    by (simp add: std_plus_def)
  have d3: "0 < length ?b \<and> (\<forall>i<length ?b. std_plus 5 (?b ! i) \<noteq> None)"
    by (simp add: std_plus_def)
  have lt: "length ?a < length ?b" by simp
  from vv have a: "unat (vector_min_size (Vector ?a) (Vector ?b)) = 2" by simp
  from vs have b: "unat (vector_min_size (Vector ?a) (Scalar (5 :: u32))) = 2" by simp
  from sv have c: "unat (vector_min_size (Scalar (5 :: u32)) (Vector ?b)) = 3" by simp
  from p1 [THEN mp, OF lt]
  have p: "reduce std_plus (Vector ?a) (Vector ?b) = reduce std_plus (Vector ?a) (Vector [10, 20])"
    by simp
  from e1 [THEN mp, OF d1]
  have x1: "\<exists>r. reduce std_plus (Vector ?a) (Vector ?b) = Inr r \<and> length r = 2" by (simp add: numeral_2_eq_2)
  from e2 [THEN mp, OF d2]
  have x2: "\<exists>r. reduce std_plus (Vector ?a) (Scalar 5) = Inr r \<and> length r = 2" by (simp add: numeral_2_eq_2)
  from e3 [THEN mp, OF d3]
  have x3: "\<exists>r. reduce std_plus (Scalar 5) (Vector ?b) = Inr r \<and> length r = 3" by (simp add: numeral_3_eq_3)
  from a b c p x1 x2 x3 show ?thesis
    by (intro conjI)
qed

text \<open>
  The claim as first stated fails beyond that range: for a vector of \<open>2 ^ 32 + 1\<close>
  elements and a scalar, \<open>N\<close> is \<open>1\<close> and the result has one element.
\<close>

theorem reduce_arity_counterexample:
  "length (replicate 4294967297 (7 :: u32)) = 4294967297
   \<and> unat (vector_min_size (Vector (replicate 4294967297 (7 :: u32))) (Scalar (1 :: u32))) = 1
   \<and> reduce std_plus (Vector (replicate 4294967297 7)) (Scalar 1) = Inr [8]
   \<and> length [8 :: u32] \<noteq> length (replicate 4294967297 (7 :: u32))"
proof -
  define xs where "xs = replicate 4294967297 (7 :: u32)"
  have l: "length xs = 4294967297"
    unfolding xs_def by (rule length_replicate)
  have x0: "xs ! 0 = 7"
    unfolding xs_def by (rule nth_replicate) simp
  have n: "unat (vector_min_size (Vector xs) (Scalar (1 :: u32))) = 1"
    by (simp add: vector_min_size_vs_mod l)
  have "map (\<lambda>i. std_plus (xs ! i) 1) [0..<1] = [Some 8]"
    by (simp add: x0 std_plus_def)
  then have r: "reduce std_plus (Vector xs) (Scalar 1) = Inr [8]"
    by (simp add: reduce_vs n std_array_def)
  have "length [8 :: u32] \<noteq> length xs"
    by (simp add: l)
  with l n r show ?thesis
    unfolding xs_def by blast
qed

subsection \<open>Output of a vector\<close>

lemma comma_separated_snoc:
  "xs \<noteq> [] \<Longrightarrow> comma_separated (xs @ [x]) = comma_separated xs @ '', '' @ x"
  by (induction xs rule: comma_separated.induct) auto

lemma fold_output_element:
  assumes "\<not> failbit os"
  shows "n \<le> length vec \<Longrightarrow>
    fold (output_element fmt vec) [0..<n] os
      = os\<lparr>contents := contents os
            @ (if n = 0 then [] else ''('' @ comma_separated (map fmt (take n vec)))\<rparr>"
proof (induction n)
  case 0
  then show ?case by simp
next
  case (Suc n)
  then have n: "n < length vec" by simp
  then have t: "take (Suc n) vec = take n vec @ [vec ! n]"
    by (simp add: take_Suc_conv_app_nth)
  show ?case
  proof (cases "n = 0")
    case True
    with assms n t show ?thesis
      by (simp add: output_element_def write_string_def)
  next
    case False
    with n have "take n vec \<noteq> []" by auto
    with assms Suc n t False show ?thesis
      by (simp add: output_element_def write_string_def comma_separated_snoc)
  qed
qed

text \<open>
  A vector of at least one element is written as \<open>(e0, e1, ...)\<close>: an opening
  parenthesis, the elements separated by a comma and a space, a closing parenthesis.
\<close>

lemma operator_output_nonempty:
  assumes "\<not> failbit os" "vec \<noteq> []"
  shows "operator_output fmt os vec
           = os\<lparr>contents := contents os @ ''('' @ comma_separated (map fmt vec) @ '')''\<rparr>"
  using assms fold_output_element [OF assms(1), of "length vec" vec fmt]
  by (simp add: operator_output_def write_string_def)

lemma operator_output_example:
  "operator_output (\<lambda>n. decimal (unat n)) (ofstream True) [1, 22, 3 :: u32]
     = \<lparr>failbit = False, contents = ''(1, 22, 3)''\<rparr>"
  by (simp add: operator_output_nonempty ofstream_def decimal.simps) code_simp

text \<open>
  Claim C9. The claim asks for \<open>()\<close> as the output of a vector of arity zero. The
  opening parenthesis is written together with element 0 only, so for a vector without
  elements (\<open>std::array<int, 0>\<close>) the operator writes the closing parenthesis alone.
\<close>

theorem operator_output_zero_arity:
  "operator_output fmt (ofstream True) [] = \<lparr>failbit = False, contents = '')''\<rparr>
   \<and> contents (operator_output fmt (ofstream True) []) \<noteq> ''()''"
  by (simp add: operator_output_def write_string_def ofstream_def)

section \<open>Canvas: proofs\<close>

subsection \<open>The row loop\<close>

text \<open>
  Started with \<open>h\<close> at most the height, the loop runs its body once for each of the
  \<open>unat h\<close> cursors \<open>cursor, cursor + stride, ...\<close>, in this order, and stops.
\<close>

lemma fill_loop_fold_from:
  "unat h = n \<Longrightarrow> h \<le> H \<Longrightarrow>
   fill_loop body H S cursor h s = fold body (map (\<lambda>r. cursor + of_nat r * S) [0..<n]) s"
proof (induction n arbitrary: h cursor s)
  case 0
  then have "h = 0" by (simp add: unat_eq_0)
  then show ?case
    by (subst fill_loop.simps) (simp add: Let_def)
next
  case (Suc n)
  then have h0: "h \<noteq> 0" by auto
  then have un: "unat (h - 1) = n" using Suc.prems(1)
    by (simp add: unat_minus_one)
  have lt: "h - 1 < h" using h0
    by (simp add: word_less_nat_alt unat_minus_one unat_gt_0)
  with Suc.prems(2) have ltH: "h - 1 < H" by simp
  then have le: "h - 1 \<le> H" by simp
  have "fill_loop body H S cursor h s = fill_loop body H S (cursor + S) (h - 1) (body cursor s)"
    using ltH by (subst fill_loop.simps) (simp add: Let_def)
  also have "\<dots> = fold body (map (\<lambda>r. cursor + S + of_nat r * S) [0..<n]) (body cursor s)"
    by (rule Suc.IH [OF un le])
  also have "\<dots> = fold body (map (\<lambda>r. cursor + of_nat r * S) [0..<Suc n]) s"
  proof -
    have "[0..<Suc n] = 0 # map Suc [0..<n]"
      by (simp add: upt_conv_Cons map_Suc_upt del: upt_Suc)
    then show ?thesis
      by (simp add: comp_def algebra_simps del: upt_Suc)
  qed
  finally show ?case .
qed

lemma fill_loop_fold:
  "fill_loop body H S 0 H s = fold body (map (\<lambda>r. of_nat r * S) [0..<unat H]) s"
  using fill_loop_fold_from [of H "unat H" H body S 0 s] by simp

lemma fold_count: "fold (\<lambda>cursor. Suc) xs n = n + length xs"
  by (induction xs arbitrary: n) simp_all

text \<open>
  Claim C10. For every value \<open>H\<close> of the height field, zero and the largest value
  included, the loop of \<open>fill\<close> (test \<open>--h < height\<close>) ends after running its body exactly
  \<open>H\<close> times, at the cursors \<open>0, stride, 2 * stride, ...\<close>: whatever the body is, the loop
  is the fold of the body over these \<open>unat H\<close> cursors, and a body that counts counts
  \<open>unat H\<close>. With height zero, \<open>fill\<close> writes nothing.
\<close>

theorem fill_loop_iterations:
  "fill_loop body H S 0 H s = fold body (map (\<lambda>r. of_nat r * S) [0..<unat H]) s
   \<and> length (map (\<lambda>r. of_nat r * S :: u32) [0..<unat H]) = unat H
   \<and> fill_loop (\<lambda>cursor. Suc) H S 0 H 0 = unat H
   \<and> fill_loop (\<lambda>cursor. Suc) (- 1) S 0 (- 1) 0 = 2 ^ 32 - 1
   \<and> fill_loop body 0 S 0 0 s = s
   \<and> fill (c\<lparr>height := 0\<rparr>) v mem = Some mem"
proof -
  have a: "fill_loop body H S 0 H s = fold body (map (\<lambda>r. of_nat r * S) [0..<unat H]) s"
    by (rule fill_loop_fold)
  have b: "fill_loop (\<lambda>cursor. Suc) H S 0 H 0 = unat H"
    by (simp add: fill_loop_fold fold_count)
  have m: "fill_loop (\<lambda>cursor. Suc) (- 1) S 0 (- 1) 0 = 2 ^ 32 - 1"
    by (simp add: fill_loop_fold fold_count unsigned_minus_1_eq_mask mask_eq_exp_minus_1)
  have c0: "fill_loop body 0 S 0 0 s = s"
    by (simp add: fill_loop_fold)
  have d: "fill (c\<lparr>height := 0\<rparr>) v mem = Some mem"
    by (simp add: fill_def fill_loop_fold)
  from a b m c0 d show ?thesis by simp
qed

theorem fill_loop_iterations_witness:
  "fill_loop (\<lambda>cursor. Suc) 3 (5 :: u32) 0 3 0 = 3
   \<and> fill \<lparr>data = Span 0 4, width = 2, height = 0, stride = 2\<rparr> (7 :: nat) [1, 2, 3, 4]
       = Some [1, 2, 3, 4]"
  using fill_loop_iterations [of "\<lambda>cursor. Suc" 3 5 0
      "\<lparr>data = Span 0 4, width = 2, height = 0, stride = 2\<rparr>" "7 :: nat" "[1, 2, 3, 4]"]
  by simp

subsection \<open>Sub-views: geometry\<close>

text \<open>
  Claim C1. For a parent canvas with storage and corner points with coordinates
  \<open>(x1, y1) \<noteq> (x2, y2)\<close>, \<open>subcanvas_view\<close> returns a view, the same one for either
  order of the corners, with width \<open>x2 - x1 + 1\<close> and height \<open>y2 - y1 + 1\<close> after the
  coordinates are put in order (in \<open>unsigned\<close> arithmetic: the value is taken modulo
  \<open>2 ^ 32\<close>), with the parent's stride, and whose storage starts at offset
  \<open>y1 * stride + x1\<close> of the parent's, the address of the parent's pixel \<open>(x1, y1)\<close>.
\<close>

theorem subcanvas_view_geometry:
  assumes "data c = Span b e"
    and "getxy p1 = (x1, y1)" and "getxy p2 = (x2, y2)"
    and "(x1, y1) \<noteq> (x2, y2)"
  shows "\<exists>view. subcanvas_view c p1 p2 getxy = Some view
           \<and> subcanvas_view c p2 p1 getxy = Some view
           \<and> width view = max x1 x2 - min x1 x2 + 1
           \<and> height view = max y1 y2 - min y1 y2 + 1
           \<and> stride view = stride c
           \<and> data view = Span (b + unat (min y1 y2 * stride c + min x1 x2))
                              (b + unat (height c * stride c))
           \<and> subscript (data view) 0 = pixel c (min x1 x2) (min y1 y2)
           \<and> unat (width view) = (unat (max x1 x2) - unat (min x1 x2) + 1) mod 2 ^ 32
           \<and> unat (height view) = (unat (max y1 y2) - unat (min y1 y2) + 1) mod 2 ^ 32"
proof -
  have u: "unat (p - q + 1) = (unat p - unat q + 1) mod 2 ^ 32" if "q \<le> p" for p q :: u32
    using that by (simp add: unat_word_ariths unat_sub mod_add_left_eq)
  have m: "min p q \<le> max p q" for p q :: u32
    by (simp add: min_le_iff_disj)
  show ?thesis
    using assms u [OF m [of x1 x2]] u [OF m [of y1 y2]]
    by (auto simp add: subcanvas_view_def pixel_def Let_def min_def max_def)
qed

theorem subcanvas_view_geometry_witness:
  "\<exists>view. subcanvas_view \<lparr>data = Span 0 16, width = 4, height = 4, stride = 4\<rparr>
              (2, 2) (1, 1) identity = Some view
         \<and> width view = 2 \<and> height view = 2 \<and> stride view = 4 \<and> data view = Span 5 16"
  using subcanvas_view_geometry [of "\<lparr>data = Span 0 16, width = 4, height = 4, stride = 4\<rparr>"
      0 16 identity "(2, 2)" 2 2 "(1, 1)" 1 1]
  by (auto simp add: identity_def)

text \<open>
  Claim C6. For two points with the same coordinates, \<open>subcanvas_view\<close> returns the
  default canvas: no storage, width, height and stride zero. \<open>fill\<close> on that canvas
  returns and leaves the store as it was.
\<close>

theorem subcanvas_view_degenerate:
  assumes "getxy p1 = getxy p2"
  shows "subcanvas_view c p1 p2 getxy = Some default_canvas
         \<and> data default_canvas = Null_span
         \<and> width default_canvas = 0 \<and> height default_canvas = 0 \<and> stride default_canvas = 0
         \<and> fill default_canvas v mem = Some mem"
proof -
  have "fill default_canvas v mem = Some mem"
    by (simp add: fill_def default_canvas_def fill_loop.simps [of _ 0 0 0 0])
  with assms show ?thesis
    by (cases "getxy p2") (simp add: subcanvas_view_def default_canvas_def)
qed

theorem subcanvas_view_degenerate_witness:
  "subcanvas_view \<lparr>data = Span 0 16, width = 4, height = 4, stride = 4\<rparr>
       (3 :: u32, 1 :: u32) (3, 1) identity = Some default_canvas
   \<and> fill default_canvas (7 :: nat) [1, 2, 3] = Some [1, 2, 3]"
  using subcanvas_view_degenerate [of identity "(3 :: u32, 1 :: u32)" "(3, 1)"
      "\<lparr>data = Span 0 16, width = 4, height = 4, stride = 4\<rparr>" "7 :: nat" "[1, 2, 3]"]
  by simp

subsection \<open>Filling\<close>











end
